theory Spec2Isabelle
  imports Main "HOL-Library.Char_ord" "HOL-Library.List_Lexorder"
begin

section \<open>JavaScript values of the dashboard components\<close>

text \<open>
  The three tab components (\<^verbatim>\<open>ExoplanetsTab.js\<close>, \<^verbatim>\<open>MarsTab.js\<close> and the ISS tab)
  read parsed JSON bodies of HTTP responses. A body is a \<open>json\<close> value; reading a
  property that is not there gives \<^verbatim>\<open>undefined\<close>, which is \<open>None\<close> of \<open>json option\<close>.

  A number is a double. \<open>JNum n\<close> is the double whose value is the integer \<open>n\<close>
  (years, sols, ids, counts and epoch seconds, all far below \<open>2^53\<close>). \<open>JFrac s\<close> is a
  double that is not an integer (a latitude, a velocity), given by the decimal string
  \<open>s\<close> that JavaScript prints for it, such as \<^verbatim>\<open>50.11496269845\<close>: that string
  determines the double. The components print such a number, test it, call
  \<^verbatim>\<open>toFixed(2)\<close> on it or multiply it by 1000; the last two are floating-point
  computations, which this development records and does not carry out.
\<close>

datatype json =
    JNull
  | JBool bool
  | JNum int
  | JFrac string
  | JStr string
  | JArr "json list"
  | JObj "(string \<times> json) list"

text \<open>
  What a render can throw: a TypeError of the language, and the error of React when a
  child to show is a plain object ("Objects are not valid as a React child").
\<close>

datatype js_error = TypeError | InvalidChild

text \<open>Sequencing of steps that may throw: the first exception ends the evaluation.\<close>

definition bindE :: "'e + 'a \<Rightarrow> ('a \<Rightarrow> 'e + 'b) \<Rightarrow> 'e + 'b" where
  "bindE m f = (case m of Inl e \<Rightarrow> Inl e | Inr x \<Rightarrow> f x)"

fun mapE :: "('a \<Rightarrow> 'e + 'b) \<Rightarrow> 'a list \<Rightarrow> 'e + 'b list" where
  "mapE f [] = Inr []"
| "mapE f (x # xs) = bindE (f x) (\<lambda>y. bindE (mapE f xs) (\<lambda>ys. Inr (y # ys)))"

text \<open>
  ToBoolean: \<^verbatim>\<open>undefined\<close>, \<^verbatim>\<open>null\<close>, \<^verbatim>\<open>false\<close>, \<^verbatim>\<open>0\<close> and \<^verbatim>\<open>''\<close> are falsy. A number that is
  not an integer is not 0.
\<close>

fun truthy :: "json option \<Rightarrow> bool" where
  "truthy None = False"
| "truthy (Some JNull) = False"
| "truthy (Some (JBool b)) = b"
| "truthy (Some (JNum n)) = (n \<noteq> 0)"
| "truthy (Some (JFrac s)) = True"
| "truthy (Some (JStr s)) = (s \<noteq> [])"
| "truthy (Some (JArr xs)) = True"
| "truthy (Some (JObj kvs)) = True"

text \<open>
  Property access \<^verbatim>\<open>v.k\<close>. On \<^verbatim>\<open>undefined\<close> and \<^verbatim>\<open>null\<close> it throws a TypeError; on an
  object it reads the own property; arrays and strings have \<^verbatim>\<open>length\<close>; everything else
  reads as \<^verbatim>\<open>undefined\<close>. The components read the fixed names \<^verbatim>\<open>data\<close>, \<^verbatim>\<open>photos\<close>,
  \<^verbatim>\<open>length\<close>, \<^verbatim>\<open>disc_year\<close>, \<^verbatim>\<open>id\<close>, \<^verbatim>\<open>img_src\<close>, \<^verbatim>\<open>sol\<close>, \<^verbatim>\<open>camera\<close>, \<^verbatim>\<open>full_name\<close>,
  \<^verbatim>\<open>latitude\<close>, \<^verbatim>\<open>longitude\<close>, \<^verbatim>\<open>altitude\<close>, \<^verbatim>\<open>velocity\<close> and \<^verbatim>\<open>timestamp\<close> only: none of them
  is an array index or a member of a prototype.
\<close>

fun get_prop :: "json option \<Rightarrow> string \<Rightarrow> js_error + json option" where
  "get_prop None k = Inl TypeError"
| "get_prop (Some JNull) k = Inl TypeError"
| "get_prop (Some (JObj kvs)) k = Inr (map_of kvs k)"
| "get_prop (Some (JArr xs)) k =
     Inr (if k = ''length'' then Some (JNum (int (length xs))) else None)"
| "get_prop (Some (JStr s)) k =
     Inr (if k = ''length'' then Some (JNum (int (length s))) else None)"
| "get_prop (Some (JNum n)) k = Inr None"
| "get_prop (Some (JFrac s)) k = Inr None"
| "get_prop (Some (JBool b)) k = Inr None"

text \<open>ToString, as a template literal and a property key apply it.\<close>

definition digit_char :: "nat \<Rightarrow> char" where
  "digit_char d = ''0123456789'' ! d"

fun digits :: "nat \<Rightarrow> string" where
  "digits n = (if n < 10 then [digit_char n] else digits (n div 10) @ [digit_char (n mod 10)])"

definition show_int :: "int \<Rightarrow> string" where
  "show_int i = (if i < 0 then CHR ''-'' # digits (nat (- i)) else digits (nat i))"

fun join_comma :: "string list \<Rightarrow> string" where
  "join_comma [] = []"
| "join_comma [s] = s"
| "join_comma (s # t # ts) = s @ CHR '','' # join_comma (t # ts)"

fun to_string :: "json \<Rightarrow> string" where
  "to_string JNull = ''null''"
| "to_string (JBool b) = (if b then ''true'' else ''false'')"
| "to_string (JNum n) = show_int n"
| "to_string (JFrac s) = s"
| "to_string (JStr s) = s"
| "to_string (JArr xs) =
     join_comma (map (\<lambda>x. case x of JNull \<Rightarrow> [] | _ \<Rightarrow> to_string x) xs)"
| "to_string (JObj kvs) = ''[object Object]''"

text \<open>
  ToNumber, with \<open>None\<close> for NaN. A string is read as an optionally signed decimal
  integer between white space, the empty string as 0; the strings that denote other
  numbers (a fraction, an exponent, a hexadecimal literal, \<^verbatim>\<open>Infinity\<close>) are not read,
  and no theorem below coerces a string.
\<close>

datatype number = Whole int | Fraction string

definition js_space :: "char \<Rightarrow> bool" where
  "js_space c = (c \<in> set [CHR '' '', CHR 0x09, CHR 0x0A, CHR 0x0B, CHR 0x0C, CHR 0x0D])"

definition trim :: "string \<Rightarrow> string" where
  "trim s = rev (dropWhile js_space (rev (dropWhile js_space s)))"

definition is_digit :: "char \<Rightarrow> bool" where
  "is_digit c = (CHR ''0'' \<le> c \<and> c \<le> CHR ''9'')"

definition digits_value :: "string \<Rightarrow> nat option" where
  "digits_value s =
     (if s \<noteq> [] \<and> list_all is_digit s
      then Some (foldl (\<lambda>n c. 10 * n + (of_char c - 48)) 0 s) else None)"

definition string_to_number :: "string \<Rightarrow> int option" where
  "string_to_number s =
     (case trim s of
        [] \<Rightarrow> Some 0
      | c # r \<Rightarrow>
          if c = CHR ''-'' then map_option (\<lambda>n. - int n) (digits_value r)
          else if c = CHR ''+'' then map_option int (digits_value r)
          else map_option int (digits_value (c # r)))"

fun to_number :: "json option \<Rightarrow> number option" where
  "to_number None = None"
| "to_number (Some JNull) = Some (Whole 0)"
| "to_number (Some (JBool b)) = Some (Whole (if b then 1 else 0))"
| "to_number (Some (JNum n)) = Some (Whole n)"
| "to_number (Some (JFrac s)) = Some (Fraction s)"
| "to_number (Some (JStr s)) = map_option Whole (string_to_number s)"
| "to_number (Some (JArr xs)) = map_option Whole (string_to_number (to_string (JArr xs)))"
| "to_number (Some (JObj kvs)) = None"

text \<open>
  \<^verbatim>\<open>v > 0\<close> and \<^verbatim>\<open>v === 0\<close>; a comparison with NaN is false, and \<^verbatim>\<open>===\<close> does not coerce.
  A number that is not an integer is positive unless its string starts with the sign.
\<close>

definition js_gt0 :: "json option \<Rightarrow> bool" where
  "js_gt0 v =
     (case to_number v of
        None \<Rightarrow> False
      | Some (Whole n) \<Rightarrow> n > 0
      | Some (Fraction s) \<Rightarrow> (case s of [] \<Rightarrow> False | c # r \<Rightarrow> c \<noteq> CHR ''-''))"

definition js_seq0 :: "json option \<Rightarrow> bool" where
  "js_seq0 v = (v = Some (JNum 0))"

section \<open>Requests\<close>

text \<open>
  \<^verbatim>\<open>axios.get(url)\<close> resolves with the parsed body of a 2xx response and rejects on
  every other status, on a network error and on a timeout. The server is a parameter
  \<open>get\<close> of every fetch: what it answers to a URL.
\<close>

datatype failure = BadStatus nat | NetworkError | Timeout

datatype outcome = Fulfilled json | Rejected failure

section \<open>MarsTab\<close>

text \<open>
  \<^verbatim>\<open>
  const [photos, setPhotos] = useState([]);
  const [sol, setSol] = useState(1000);
  const [rover, setRover] = useState('curiosity');
  const [loading, setLoading] = useState(false);
  const [error, setError] = useState(null);
  \<close>
  \<open>sol\<close> is the number 1000 until the input changes it to a string (\<^verbatim>\<open>e.target.value\<close>).
\<close>

record mars_state =
  mars_photos :: json
  mars_sol :: json
  mars_rover :: string
  mars_loading :: bool
  mars_error :: "string option"

definition mars_init :: mars_state where
  "mars_init = \<lparr>mars_photos = JArr [], mars_sol = JNum 1000, mars_rover = ''curiosity'',
     mars_loading = False, mars_error = None\<rparr>"

definition mars_url :: "json \<Rightarrow> string \<Rightarrow> string" where
  "mars_url solValue roverName =
     ''/api/mars/rover/'' @ roverName @ ''/photos?sol='' @ to_string solValue"

text \<open>\<^verbatim>\<open>response.data.photos || []\<close>\<close>

definition photos_or_empty :: "json \<Rightarrow> js_error + json" where
  "photos_or_empty body =
     bindE (get_prop (Some body) ''photos'')
       (\<lambda>v. Inr (case v of None \<Rightarrow> JArr [] | Some p \<Rightarrow> if truthy (Some p) then p else JArr []))"

text \<open>
  \<^verbatim>\<open>
  const fetchMarsPhotos = async (solValue, roverName) => {
    setLoading(true);
    setError(null);
    try {
      const response = await axios.get(`/api/mars/rover/${roverName}/photos?sol=${solValue}`);
      setPhotos(response.data.photos || []);
    } catch (err) {
      setError('Failed to fetch Mars photos');
    } finally {
      setLoading(false);
    }
  };
  \<close>
  The result is the list of requests sent and the state once the call has settled.
\<close>

definition fetchMarsPhotos ::
  "(string \<Rightarrow> outcome) \<Rightarrow> json \<Rightarrow> string \<Rightarrow> mars_state \<Rightarrow> string list \<times> mars_state" where
  "fetchMarsPhotos get solValue roverName st =
     (let st1 = st\<lparr>mars_loading := True, mars_error := None\<rparr>;
          url = mars_url solValue roverName;
          st2 = (case get url of
                   Fulfilled body \<Rightarrow>
                     (case photos_or_empty body of
                        Inr p \<Rightarrow> st1\<lparr>mars_photos := p\<rparr>
                      | Inl e \<Rightarrow> st1\<lparr>mars_error := Some ''Failed to fetch Mars photos''\<rparr>)
                 | Rejected f \<Rightarrow> st1\<lparr>mars_error := Some ''Failed to fetch Mars photos''\<rparr>)
      in ([url], st2\<lparr>mars_loading := False\<rparr>))"

text \<open>
  What the component returns below the two form controls, child by child; a child that
  is \<^verbatim>\<open>false\<close> or \<^verbatim>\<open>null\<close> is left out. \<open>MarsTab_elements\<close> is the evaluation of the
  component function, which can throw a TypeError; \<open>MarsTab\<close> is what React then shows,
  or the error thrown on the way.
  \<^verbatim>\<open>
  {loading && <p>Loading photos...</p>}
  {error && <p className="text-danger">{error}</p>}
  {!loading && !error && photos.length > 0 && (
    <div className="row">
      {photos.slice(0, 10).map((photo) => (
        <div key={photo.id} className="col-md-4 mb-3">
          <img src={photo.img_src} alt={`Mars ${rover} rover image`} ... />
          <p>Sol: {photo.sol}, Camera: {photo.camera.full_name}</p>
        </div>
      ))}
    </div>
  )}
  {!loading && !error && photos.length === 0 && <p>No photos found for this sol.</p>}
  \<close>
\<close>

record photo_card =
  card_key :: "json option"
  card_src :: "json option"
  card_alt :: string
  card_sol :: "json option"
  card_camera :: "json option"

datatype mars_child =
    LoadingPhotos
  | MarsError string
  | PhotoRow "photo_card list"
  | NoPhotosFound

definition render_photo :: "string \<Rightarrow> json \<Rightarrow> js_error + photo_card" where
  "render_photo rover photo =
     bindE (get_prop (Some photo) ''id'') (\<lambda>i.
     bindE (get_prop (Some photo) ''img_src'') (\<lambda>src.
     bindE (get_prop (Some photo) ''sol'') (\<lambda>s.
     bindE (get_prop (Some photo) ''camera'') (\<lambda>cam.
     bindE (get_prop cam ''full_name'') (\<lambda>name.
       Inr \<lparr>card_key = i, card_src = src, card_alt = ''Mars '' @ rover @ '' rover image'',
            card_sol = s, card_camera = name\<rparr>)))))"

text \<open>
  \<^verbatim>\<open>photos.slice(0, 10).map(...)\<close>: an array has both methods; a string has \<^verbatim>\<open>slice\<close> but
  no \<^verbatim>\<open>map\<close>, and any other value has no \<^verbatim>\<open>slice\<close>, so the call throws.
\<close>

definition photo_row :: "string \<Rightarrow> json \<Rightarrow> js_error + photo_card list" where
  "photo_row rover photos =
     (case photos of
        JArr ps \<Rightarrow> mapE (render_photo rover) (take 10 ps)
      | _ \<Rightarrow> Inl TypeError)"

definition error_shown :: "string option \<Rightarrow> bool" where
  "error_shown e = (case e of None \<Rightarrow> False | Some m \<Rightarrow> m \<noteq> [])"

definition MarsTab_elements :: "mars_state \<Rightarrow> js_error + mars_child list" where
  "MarsTab_elements st =
     (let idle = (\<not> mars_loading st \<and> \<not> error_shown (mars_error st)) in
      bindE (if idle
             then bindE (get_prop (Some (mars_photos st)) ''length'') (\<lambda>n.
                    if js_gt0 n
                    then bindE (photo_row (mars_rover st) (mars_photos st))
                           (\<lambda>cs. Inr [PhotoRow cs])
                    else Inr [])
             else Inr []) (\<lambda>row.
      bindE (if idle
             then bindE (get_prop (Some (mars_photos st)) ''length'') (\<lambda>n.
                    Inr (if js_seq0 n then [NoPhotosFound] else []))
             else Inr []) (\<lambda>none.
        Inr ((if mars_loading st then [LoadingPhotos] else [])
             @ (case mars_error st of
                  None \<Rightarrow> []
                | Some m \<Rightarrow> if m \<noteq> [] then [MarsError m] else [])
             @ row @ none))))"

text \<open>
  React shows a child that is a string or a number, shows nothing for \<^verbatim>\<open>undefined\<close>,
  \<^verbatim>\<open>null\<close> and a boolean, shows the elements of an array one by one, and throws on a
  plain object. In a card the children taken from the data are \<^verbatim>\<open>{photo.sol}\<close> and
  \<^verbatim>\<open>{photo.camera.full_name}\<close>; \<^verbatim>\<open>key\<close>, \<^verbatim>\<open>src\<close> and \<^verbatim>\<open>alt\<close> are attributes, which are
  turned into strings.
\<close>

fun valid_child :: "json \<Rightarrow> bool" where
  "valid_child (JObj kvs) = False"
| "valid_child (JArr xs) = list_all valid_child xs"
| "valid_child JNull = True"
| "valid_child (JBool b) = True"
| "valid_child (JNum n) = True"
| "valid_child (JFrac s) = True"
| "valid_child (JStr s) = True"

definition child_ok :: "json option \<Rightarrow> bool" where
  "child_ok v = (case v of None \<Rightarrow> True | Some j \<Rightarrow> valid_child j)"

definition card_ok :: "photo_card \<Rightarrow> bool" where
  "card_ok c = (child_ok (card_sol c) \<and> child_ok (card_camera c))"

fun mars_child_ok :: "mars_child \<Rightarrow> bool" where
  "mars_child_ok (PhotoRow cs) = list_all card_ok cs"
| "mars_child_ok LoadingPhotos = True"
| "mars_child_ok (MarsError m) = True"
| "mars_child_ok NoPhotosFound = True"

definition MarsTab :: "mars_state \<Rightarrow> js_error + mars_child list" where
  "MarsTab st =
     bindE (MarsTab_elements st)
       (\<lambda>children. if list_all mars_child_ok children then Inr children else Inl InvalidChild)"

section \<open>ExoplanetsTab\<close>

text \<open>
  \<^verbatim>\<open>
  const [data, setData] = useState([]);
  const [yearFilter, setYearFilter] = useState('');
  const [loading, setLoading] = useState(false);
  const [error, setError] = useState(null);
  \<close>
  \<open>yearFilter\<close> is always a string: the value of the input.
\<close>

record exo_state =
  exo_data :: "json option"
  exo_yearFilter :: string
  exo_loading :: bool
  exo_error :: "string option"

definition exo_init :: exo_state where
  "exo_init = \<lparr>exo_data = Some (JArr []), exo_yearFilter = [], exo_loading = False,
     exo_error = None\<rparr>"

text \<open>
  \<^verbatim>\<open>
  let url = '/api/exoplanets/search?';
  if (year) {
    url += `discovery_year=${year}`;
  }
  \<close>
\<close>

definition exoplanets_url :: "string \<Rightarrow> string" where
  "exoplanets_url year =
     (let url = ''/api/exoplanets/search?''
      in if year \<noteq> [] then url @ ''discovery_year='' @ year else url)"

text \<open>
  \<^verbatim>\<open>
  const fetchExoplanets = async (year) => {
    setLoading(true);
    setError(null);
    try {
      ...
      const response = await axios.get(url);
      setData(response.data.data);
    } catch (err) {
      setError('Failed to fetch exoplanets data');
    } finally {
      setLoading(false);
    }
  };
  \<close>
\<close>

definition fetchExoplanets ::
  "(string \<Rightarrow> outcome) \<Rightarrow> string \<Rightarrow> exo_state \<Rightarrow> string list \<times> exo_state" where
  "fetchExoplanets get year st =
     (let st1 = st\<lparr>exo_loading := True, exo_error := None\<rparr>;
          url = exoplanets_url year;
          st2 = (case get url of
                   Fulfilled body \<Rightarrow>
                     (case get_prop (Some body) ''data'' of
                        Inr d \<Rightarrow> st1\<lparr>exo_data := d\<rparr>
                      | Inl e \<Rightarrow> st1\<lparr>exo_error := Some ''Failed to fetch exoplanets data''\<rparr>)
                 | Rejected f \<Rightarrow> st1\<lparr>exo_error := Some ''Failed to fetch exoplanets data''\<rparr>)
      in ([url], st2\<lparr>exo_loading := False\<rparr>))"






section \<open>IssTab\<close>

text \<open>
  \<^verbatim>\<open>
  const [position, setPosition] = useState(null);
  const [loading, setLoading] = useState(false);
  const [error, setError] = useState(null);

  const fetchIssPosition = async () => {
    setLoading(true);
    setError(null);
    try {
      const response = await axios.get('/api/iss/');
      setPosition(response.data);
    } catch (err) {
      setError('Failed to fetch ISS position');
    } finally {
      setLoading(false);
    }
  };
  \<close>
\<close>

record iss_state =
  iss_position :: json
  iss_loading :: bool
  iss_error :: "string option"

definition iss_init :: iss_state where
  "iss_init = \<lparr>iss_position = JNull, iss_loading = False, iss_error = None\<rparr>"

definition iss_url :: string where
  "iss_url = ''/api/iss/''"

definition fetchIssPosition ::
  "(string \<Rightarrow> outcome) \<Rightarrow> iss_state \<Rightarrow> string list \<times> iss_state" where
  "fetchIssPosition get st =
     (let st1 = st\<lparr>iss_loading := True, iss_error := None\<rparr>;
          st2 = (case get iss_url of
                   Fulfilled body \<Rightarrow> st1\<lparr>iss_position := body\<rparr>
                 | Rejected f \<Rightarrow> st1\<lparr>iss_error := Some ''Failed to fetch ISS position''\<rparr>)
      in ([iss_url], st2\<lparr>iss_loading := False\<rparr>))"











subsection \<open>The polling effect\<close>










section \<open>The query normalizer\<close>

text \<open>
  Modelled from the spec: \<open>normalize\<close>, the Query Normalizer of the aggregation layer,
  which is not among the source files (the components above send their parameters
  as they are). The spec: "\<^verbatim>\<open>normalize(rawParams) -> NormalizedQuery | fails with
  InvalidQuery\<close>. Validates each supplied field against the fixed vocabulary and its
  expected type/range (e.g., year must be a 4-digit integer in [1989, current_year+1];
  sol must be a non-negative integer). Unrecognized fields fail with
  \<^verbatim>\<open>InvalidQuery{field}\<close>; out-of-range values fail with \<^verbatim>\<open>InvalidQuery{field, reason}\<close>.
  Side effect: none (pure function). Canonicalization must be deterministic [...]
  including stable ordering of fields."

  The spec names the vocabulary only by example, so it is a parameter: each field name
  with its rule, which gives the reason a value is refused. \<open>example_vocabulary\<close> holds
  the two rules the spec spells out.
\<close>

datatype invalid_query = UnknownField string | OutOfRange string string

type_synonym query = "(string \<times> json) list"

type_synonym vocabulary = "(string \<times> (json \<Rightarrow> string option)) list"

fun check_fields :: "vocabulary \<Rightarrow> query \<Rightarrow> invalid_query option" where
  "check_fields vocab [] = None"
| "check_fields vocab ((k, v) # rest) =
     (case map_of vocab k of
        None \<Rightarrow> Some (UnknownField k)
      | Some rule \<Rightarrow>
          (case rule v of
             Some reason \<Rightarrow> Some (OutOfRange k reason)
           | None \<Rightarrow> check_fields vocab rest))"

definition normalize :: "vocabulary \<Rightarrow> query \<Rightarrow> invalid_query + query" where
  "normalize vocab rawParams =
     (case check_fields vocab rawParams of
        Some e \<Rightarrow> Inl e
      | None \<Rightarrow> Inr (sort_key fst rawParams))"

definition normalized :: "vocabulary \<Rightarrow> query \<Rightarrow> bool" where
  "normalized vocab q = (check_fields vocab q = None \<and> sorted (map fst q))"

definition year_rule :: "int \<Rightarrow> json \<Rightarrow> string option" where
  "year_rule current_year v =
     (case v of
        JNum y \<Rightarrow>
          if 1000 \<le> y \<and> y \<le> 9999 \<and> 1989 \<le> y \<and> y \<le> current_year + 1 then None
          else Some ''year must be a 4-digit integer in [1989, current_year+1]''
      | _ \<Rightarrow> Some ''year must be a 4-digit integer in [1989, current_year+1]'')"

definition sol_rule :: "json \<Rightarrow> string option" where
  "sol_rule v =
     (case v of
        JNum n \<Rightarrow> if 0 \<le> n then None else Some ''sol must be a non-negative integer''
      | _ \<Rightarrow> Some ''sol must be a non-negative integer'')"

definition example_vocabulary :: "int \<Rightarrow> vocabulary" where
  "example_vocabulary current_year =
     [(''discovery_year'', year_rule current_year), (''sol'', sol_rule)]"

section \<open>Lemmas on the sequencing of steps\<close>

lemma bindE_Inr [simp]: "bindE (Inr x) f = f x"
  by (simp add: bindE_def)

lemma bindE_Inl [simp]: "bindE (Inl e) f = Inl e"
  by (simp add: bindE_def)




section \<open>MarsTab: what is shown\<close>




lemma MarsTab_array:
  assumes "mars_photos st = JArr ps"
  shows "MarsTab st =
     (if \<not> mars_loading st \<and> \<not> error_shown (mars_error st)
      then (if ps = [] then Inr [NoPhotosFound]
            else bindE (mapE (render_photo (mars_rover st)) (take 10 ps))
                   (\<lambda>cs. if list_all card_ok cs then Inr [PhotoRow cs] else Inl InvalidChild))
      else Inr ((if mars_loading st then [LoadingPhotos] else [])
             @ (case mars_error st of
                  None \<Rightarrow> []
                | Some m \<Rightarrow> if m \<noteq> [] then [MarsError m] else [])))"
  using assms
  by (cases "mapE (render_photo (mars_rover st)) (take 10 ps)")
     (auto simp: MarsTab_def MarsTab_elements_def Let_def js_gt0_def js_seq0_def photo_row_def
           error_shown_def split: option.splits)

text \<open>
  C3. A fetch that succeeds with zero photos (the body's \<^verbatim>\<open>photos\<close> is the empty array,
  or is missing) is not an error: the tab ends with no error, not loading, an empty
  photo list, and shows exactly the "No photos found for this sol." paragraph.
\<close>

theorem C3_empty_result_is_not_an_error:
  assumes "get (mars_url solValue roverName) = Fulfilled body"
    and "photos_or_empty body = Inr (JArr [])"
  shows "mars_photos (snd (fetchMarsPhotos get solValue roverName st)) = JArr []
       \<and> mars_error (snd (fetchMarsPhotos get solValue roverName st)) = None
       \<and> \<not> mars_loading (snd (fetchMarsPhotos get solValue roverName st))
       \<and> MarsTab (snd (fetchMarsPhotos get solValue roverName st)) = Inr [NoPhotosFound]"
proof -
  let ?st = "snd (fetchMarsPhotos get solValue roverName st)"
  from assms have st: "?st = st\<lparr>mars_photos := JArr [], mars_loading := False, mars_error := None\<rparr>"
    by (simp add: fetchMarsPhotos_def Let_def)
  have "MarsTab ?st = Inr [NoPhotosFound]"
    by (subst MarsTab_array [of _ "[]"]) (simp_all add: st error_shown_def)
  with st show ?thesis by simp
qed

theorem C3_empty_result_witness:
  "photos_or_empty (JObj [(''photos'', JArr [])]) = Inr (JArr [])
   \<and> mars_error (snd (fetchMarsPhotos (\<lambda>url. Fulfilled (JObj [(''photos'', JArr [])]))
        (JNum 999999) ''curiosity'' mars_init)) = None
   \<and> MarsTab (snd (fetchMarsPhotos (\<lambda>url. Fulfilled (JObj [(''photos'', JArr [])]))
        (JNum 999999) ''curiosity'' mars_init)) = Inr [NoPhotosFound]"
proof -
  have h: "photos_or_empty (JObj [(''photos'', JArr [])]) = Inr (JArr [])"
    by (simp add: photos_or_empty_def)
  from C3_empty_result_is_not_an_error
         [of "\<lambda>url. Fulfilled (JObj [(''photos'', JArr [])])" "JNum 999999" "''curiosity''"
             "JObj [(''photos'', JArr [])]" mars_init, OF refl h]
  show ?thesis using h by simp
qed



section \<open>The three fetches\<close>

text \<open>
  C1 (as the code has it). The tabs do not read one common envelope field. After a
  response with body \<open>body\<close> (not \<^verbatim>\<open>null\<close>), the Exoplanets tab holds \<^verbatim>\<open>body.data\<close>, the
  Mars tab holds \<^verbatim>\<open>body.photos || []\<close> and the ISS tab holds the whole body; each tab
  ends with no error and not loading.
\<close>

theorem C1_each_tab_reads_its_own_field:
  assumes "body \<noteq> JNull"
    and "get (exoplanets_url year) = Fulfilled body"
    and "get (mars_url solValue roverName) = Fulfilled body"
    and "get iss_url = Fulfilled body"
  shows "Inr (exo_data (snd (fetchExoplanets get year est))) = get_prop (Some body) ''data''
       \<and> Inr (mars_photos (snd (fetchMarsPhotos get solValue roverName mst))) = photos_or_empty body
       \<and> iss_position (snd (fetchIssPosition get ist)) = body
       \<and> exo_error (snd (fetchExoplanets get year est)) = None
       \<and> mars_error (snd (fetchMarsPhotos get solValue roverName mst)) = None
       \<and> iss_error (snd (fetchIssPosition get ist)) = None
       \<and> \<not> exo_loading (snd (fetchExoplanets get year est))
       \<and> \<not> mars_loading (snd (fetchMarsPhotos get solValue roverName mst))
       \<and> \<not> iss_loading (snd (fetchIssPosition get ist))"
proof -
  from assms(1) obtain d where d: "get_prop (Some body) ''data'' = Inr d"
    by (cases body) auto
  from assms(1) obtain p where "get_prop (Some body) ''photos'' = Inr p"
    by (cases body) auto
  then obtain ph where ph: "photos_or_empty body = Inr ph"
    by (simp add: photos_or_empty_def)
  from d assms(2) have "exo_data (snd (fetchExoplanets get year est)) = d"
    and "exo_error (snd (fetchExoplanets get year est)) = None"
    and "\<not> exo_loading (snd (fetchExoplanets get year est))"
    by (simp_all add: fetchExoplanets_def Let_def)
  moreover from ph assms(3)
  have "mars_photos (snd (fetchMarsPhotos get solValue roverName mst)) = ph"
    and "mars_error (snd (fetchMarsPhotos get solValue roverName mst)) = None"
    and "\<not> mars_loading (snd (fetchMarsPhotos get solValue roverName mst))"
    by (simp_all add: fetchMarsPhotos_def Let_def)
  moreover from assms(4) have "iss_position (snd (fetchIssPosition get ist)) = body"
    and "iss_error (snd (fetchIssPosition get ist)) = None"
    and "\<not> iss_loading (snd (fetchIssPosition get ist))"
    by (simp_all add: fetchIssPosition_def Let_def)
  ultimately show ?thesis using d ph by simp
qed

theorem C1_each_tab_reads_its_own_field_witness:
  "JObj [(''data'', JArr [JStr ''a'']), (''photos'', JArr [JStr ''b''])] \<noteq> JNull
   \<and> exo_data (snd (fetchExoplanets
        (\<lambda>url. Fulfilled (JObj [(''data'', JArr [JStr ''a'']), (''photos'', JArr [JStr ''b''])]))
        ''2023'' exo_init)) = Some (JArr [JStr ''a''])
   \<and> mars_photos (snd (fetchMarsPhotos
        (\<lambda>url. Fulfilled (JObj [(''data'', JArr [JStr ''a'']), (''photos'', JArr [JStr ''b''])]))
        (JNum 1000) ''curiosity'' mars_init)) = JArr [JStr ''b'']
   \<and> iss_position (snd (fetchIssPosition
        (\<lambda>url. Fulfilled (JObj [(''data'', JArr [JStr ''a'']), (''photos'', JArr [JStr ''b''])]))
        iss_init)) = JObj [(''data'', JArr [JStr ''a'']), (''photos'', JArr [JStr ''b''])]"
  using C1_each_tab_reads_its_own_field
    [of "JObj [(''data'', JArr [JStr ''a'']), (''photos'', JArr [JStr ''b''])]"
        "\<lambda>url. Fulfilled (JObj [(''data'', JArr [JStr ''a'']), (''photos'', JArr [JStr ''b''])])"
        "''2023''" "JNum 1000" "''curiosity''" exo_init mars_init iss_init]
  by (simp add: photos_or_empty_def)

text \<open>
  The claim as stated fails: given a body that is exactly the envelope of the spec, with
  one record, the Exoplanets tab stores \<^verbatim>\<open>undefined\<close>, the Mars tab stores no photo and
  the ISS tab stores the envelope itself as the position. No tab reads \<^verbatim>\<open>records\<close>.
\<close>

theorem C1_counterexample:
  "exo_data (snd (fetchExoplanets
      (\<lambda>url. Fulfilled (JObj [(''providers'', JObj [(''mars'', JStr ''success'')]),
                              (''records'', JArr [JObj [(''id'', JNum 1)]]),
                              (''partial'', JBool False)]))
      ''2023'' exo_init)) = None
   \<and> mars_photos (snd (fetchMarsPhotos
      (\<lambda>url. Fulfilled (JObj [(''providers'', JObj [(''mars'', JStr ''success'')]),
                              (''records'', JArr [JObj [(''id'', JNum 1)]]),
                              (''partial'', JBool False)]))
      (JNum 1000) ''curiosity'' mars_init)) = JArr []
   \<and> iss_position (snd (fetchIssPosition
      (\<lambda>url. Fulfilled (JObj [(''providers'', JObj [(''mars'', JStr ''success'')]),
                              (''records'', JArr [JObj [(''id'', JNum 1)]]),
                              (''partial'', JBool False)]))
      iss_init))
     = JObj [(''providers'', JObj [(''mars'', JStr ''success'')]),
             (''records'', JArr [JObj [(''id'', JNum 1)]]),
             (''partial'', JBool False)]"
  by (simp add: fetchExoplanets_def fetchMarsPhotos_def fetchIssPosition_def Let_def
        photos_or_empty_def)

text \<open>
  C2 (as the code has it). Whatever the kind of failure of the request, each tab ends
  in the same state: its one fixed message as the error, not loading, and everything
  else as it was. The kind of failure is not kept.
\<close>

theorem C2_every_failure_gives_the_same_error:
  assumes "get (exoplanets_url year) = Rejected f1"
    and "get (mars_url solValue roverName) = Rejected f2"
    and "get iss_url = Rejected f3"
  shows "snd (fetchExoplanets get year est)
           = est\<lparr>exo_loading := False, exo_error := Some ''Failed to fetch exoplanets data''\<rparr>
       \<and> snd (fetchMarsPhotos get solValue roverName mst)
           = mst\<lparr>mars_loading := False, mars_error := Some ''Failed to fetch Mars photos''\<rparr>
       \<and> snd (fetchIssPosition get ist)
           = ist\<lparr>iss_loading := False, iss_error := Some ''Failed to fetch ISS position''\<rparr>"
  using assms by (simp add: fetchExoplanets_def fetchMarsPhotos_def fetchIssPosition_def Let_def)

theorem C2_every_failure_witness:
  "snd (fetchExoplanets (\<lambda>url. Rejected Timeout) ''2023'' exo_init)
     = exo_init\<lparr>exo_loading := False, exo_error := Some ''Failed to fetch exoplanets data''\<rparr>
   \<and> snd (fetchMarsPhotos (\<lambda>url. Rejected Timeout) (JNum 1000) ''curiosity'' mars_init)
     = mars_init\<lparr>mars_loading := False, mars_error := Some ''Failed to fetch Mars photos''\<rparr>
   \<and> snd (fetchIssPosition (\<lambda>url. Rejected Timeout) iss_init)
     = iss_init\<lparr>iss_loading := False, iss_error := Some ''Failed to fetch ISS position''\<rparr>"
  using C2_every_failure_gives_the_same_error
    [of "\<lambda>url. Rejected Timeout" "''2023''" Timeout "JNum 1000" "''curiosity''" Timeout Timeout
        exo_init mars_init iss_init]
  by simp

text \<open>
  The claim as stated fails: a request refused with status 400 (the provider rejected
  the filter), one answered with status 503 (the provider is degraded) and one that
  timed out leave the Mars tab in one and the same state, which shows one and the same
  message.
\<close>

theorem C2_counterexample:
  "snd (fetchMarsPhotos (\<lambda>url. Rejected (BadStatus 400)) (JNum 1000) ''curiosity'' mars_init)
     = snd (fetchMarsPhotos (\<lambda>url. Rejected (BadStatus 503)) (JNum 1000) ''curiosity'' mars_init)
   \<and> snd (fetchMarsPhotos (\<lambda>url. Rejected (BadStatus 503)) (JNum 1000) ''curiosity'' mars_init)
     = snd (fetchMarsPhotos (\<lambda>url. Rejected Timeout) (JNum 1000) ''curiosity'' mars_init)
   \<and> MarsTab (snd (fetchMarsPhotos (\<lambda>url. Rejected (BadStatus 400)) (JNum 1000) ''curiosity''
        mars_init)) = Inr [MarsError ''Failed to fetch Mars photos'']
   \<and> MarsTab (snd (fetchMarsPhotos (\<lambda>url. Rejected (BadStatus 503)) (JNum 1000) ''curiosity''
        mars_init)) = Inr [MarsError ''Failed to fetch Mars photos'']"
  by (simp add: fetchMarsPhotos_def Let_def MarsTab_def MarsTab_elements_def mars_init_def
        error_shown_def)

text \<open>
  C4 (as the code has it). The components validate nothing: for every year and every
  sol, whatever its value, the fetch sends exactly one request, to
  \<^verbatim>\<open>/api/exoplanets/search?\<close> followed by \<^verbatim>\<open>discovery_year=\<close> and the year when the year is
  not empty, and to \<^verbatim>\<open>/api/mars/rover/<rover>/photos?sol=<sol>\<close>.
\<close>

theorem C4_requests_are_sent_unvalidated:
  "fst (fetchExoplanets get year est) = [exoplanets_url year]
   \<and> fst (fetchMarsPhotos get solValue roverName mst) = [mars_url solValue roverName]
   \<and> exoplanets_url (y # ys) = ''/api/exoplanets/search?discovery_year='' @ y # ys
   \<and> exoplanets_url [] = ''/api/exoplanets/search?''
   \<and> mars_url (JStr s) roverName = ''/api/mars/rover/'' @ roverName @ ''/photos?sol='' @ s"
  by (simp add: fetchExoplanets_def fetchMarsPhotos_def Let_def exoplanets_url_def mars_url_def)

theorem C4_requests_are_sent_witness:
  "fst (fetchExoplanets (\<lambda>url. Rejected NetworkError) ''2023'' exo_init)
     = [''/api/exoplanets/search?discovery_year=2023'']
   \<and> fst (fetchMarsPhotos (\<lambda>url. Rejected NetworkError) (JNum 1000) ''curiosity'' mars_init)
     = [''/api/mars/rover/curiosity/photos?sol=1000'']"
  using C4_requests_are_sent_unvalidated
    [of "\<lambda>url. Rejected NetworkError" "''2023''" exo_init "JNum 1000" "''curiosity''" mars_init]
  by (simp add: exoplanets_url_def mars_url_def show_int_def digit_char_def)

text \<open>
  The claim as stated fails: the year 1500 (below 1989), the sol -5 (negative) and the
  sol 1.5 (not an integer) are each sent to the server, and the fetch ends without an
  error when the server answers.
\<close>

theorem C4_counterexample:
  "fetchExoplanets (\<lambda>url. Fulfilled (JObj [(''data'', JArr [])])) ''1500'' exo_init
     = ([''/api/exoplanets/search?discovery_year=1500''], exo_init)
   \<and> fetchMarsPhotos (\<lambda>url. Fulfilled (JObj [(''photos'', JArr [])])) (JStr ''-5'') ''curiosity''
       mars_init
     = ([''/api/mars/rover/curiosity/photos?sol=-5''], mars_init)
   \<and> fetchMarsPhotos (\<lambda>url. Fulfilled (JObj [(''photos'', JArr [])])) (JStr ''1.5'') ''curiosity''
       mars_init
     = ([''/api/mars/rover/curiosity/photos?sol=1.5''], mars_init)"
  by (simp add: fetchExoplanets_def fetchMarsPhotos_def Let_def exoplanets_url_def mars_url_def
        photos_or_empty_def exo_init_def mars_init_def)

section \<open>ExoplanetsTab: the discovery counts\<close>











section \<open>IssTab: the timestamp and the polling\<close>










section \<open>The query normalizer: idempotence\<close>

lemma check_fields_None_iff:
  "check_fields vocab q = None
     \<longleftrightarrow> (\<forall>(k, v) \<in> set q. \<exists>rule. map_of vocab k = Some rule \<and> rule v = None)"
  by (induction q) (auto split: option.splits)

lemma check_fields_sort_key:
  "check_fields vocab (sort_key fst q) = None \<longleftrightarrow> check_fields vocab q = None"
  by (simp add: check_fields_None_iff)

text \<open>
  C9. \<open>normalize\<close> is idempotent: what it returns is a normalized query (every field
  passes its rule and the fields are in order), and normalizing a normalized query
  returns it unchanged.
\<close>

theorem C9_normalize_idempotent:
  "(normalize vocab rawParams = Inr q \<longrightarrow> normalized vocab q \<and> normalize vocab q = Inr q)
   \<and> (normalized vocab q' \<longrightarrow> normalize vocab q' = Inr q')"
proof (intro conjI impI)
  assume n: "normalized vocab q'"
  then show "normalize vocab q' = Inr q'"
    by (simp add: normalized_def normalize_def sort_key_id_if_sorted)
next
  assume r: "normalize vocab rawParams = Inr q"
  then have c: "check_fields vocab rawParams = None" and q: "q = sort_key fst rawParams"
    by (auto simp: normalize_def split: option.splits)
  from c q show "normalized vocab q"
    by (simp add: normalized_def check_fields_sort_key)
  then show "normalize vocab q = Inr q"
    by (simp add: normalized_def normalize_def sort_key_id_if_sorted)
qed

theorem C9_normalize_idempotent_witness:
  "normalize (example_vocabulary 2026) [(''sol'', JNum 1000), (''discovery_year'', JNum 2023)]
     = Inr [(''discovery_year'', JNum 2023), (''sol'', JNum 1000)]
   \<and> normalized (example_vocabulary 2026) [(''discovery_year'', JNum 2023), (''sol'', JNum 1000)]
   \<and> normalize (example_vocabulary 2026) [(''discovery_year'', JNum 2023), (''sol'', JNum 1000)]
     = Inr [(''discovery_year'', JNum 2023), (''sol'', JNum 1000)]"
proof -
  have h: "normalize (example_vocabulary 2026)
       [(''sol'', JNum 1000), (''discovery_year'', JNum 2023)]
     = Inr [(''discovery_year'', JNum 2023), (''sol'', JNum 1000)]"
    by (simp add: normalize_def example_vocabulary_def year_rule_def sol_rule_def
          less_eq_char_def less_char_def)
  from C9_normalize_idempotent
         [of "example_vocabulary 2026" "[(''sol'', JNum 1000), (''discovery_year'', JNum 2023)]"
             "[(''discovery_year'', JNum 2023), (''sol'', JNum 1000)]"
             "[(''discovery_year'', JNum 2023), (''sol'', JNum 1000)]"] h
  show ?thesis by blast
qed

end
